theory Spec2Isabelle
  imports Main "HOL-Library.Word"
begin

unbundle bit_operations_syntax

section \<open>The wasm operator instance: handle table\<close>

text \<open>
  Host objects that the guest may reference through a handle. The Go code stores them as
  \<open>any\<close> and recovers them with a type assertion to one of the three interfaces
  \<open>datasource.DataSource\<close>, \<open>datasource.FieldAccessor\<close> and \<open>datasource.Data\<close>;
  the payload is the identity of the object.
\<close>

datatype obj = DataSourceObj nat | FieldAccessorObj nat | DataObj nat

text \<open>A Go value of type \<open>any\<close>: \<open>None\<close> is \<open>nil\<close>.\<close>

type_synonym any = "obj option"

datatype level = PanicLevel | FatalLevel | ErrorLevel | WarnLevel | InfoLevel | DebugLevel | TraceLevel

text \<open>
  Calls that leave the wasm operator (into the data source bus, the field accessors and the
  guest module), in the order in which they are made.
\<close>

datatype call =
    RegisterDataSource string
  | DsGetField nat string
  | DsAddField nat string
  | DsSubscribe nat int "64 word"
  | DsNewData nat
  | DsEmitAndRelease nat nat
  | DsRelease nat nat
  | AccString nat nat
  | AccSet nat nat string
  | AccGet nat nat nat
  | AccPut nat nat nat "64 word"
  | GuestMalloc nat
  | MemoryWrite "32 word" string

text \<open>A Go runtime panic.\<close>

datatype panic = AssignmentToEntryInNilMap | IndexOutOfRange | NilPointerDereference

text \<open>
  \<open>wasmOperatorInstance\<close>: \<open>handleMap\<close> is a Go map, which may be \<open>nil\<close>
  (\<open>None\<close>) after \<open>Stop\<close>; \<open>handleCtr\<close> is a \<open>uint32\<close>. \<open>logs\<close> collects what is
  written to the logger (level and message; format arguments are left out) and \<open>calls\<close>
  the outgoing calls.
\<close>

record wasmOperatorInstance =
  handleMap :: "(32 word \<rightharpoonup> obj) option"
  handleCtr :: "32 word"
  logs :: "(level \<times> string) list"
  calls :: "call list"

definition InstantiateImageOperator :: "wasmOperatorInstance" where
  "InstantiateImageOperator =
     \<lparr>handleMap = Some Map.empty, handleCtr = 0, logs = [], calls = []\<rparr>"

text \<open>
  The \<open>for\<close> loop of \<open>addHandle\<close>: \<open>xctr\<close> is a Go \<open>int\<close> (64 bit, since the
  constant \<open>1<<32\<close> has to fit), counted up to \<open>2^32 + 1\<close>; the loop body never changes
  \<open>handleCtr\<close>. Reading a \<open>nil\<close> map finds nothing, assigning to it panics.
\<close>

function addHandle_loop :: "obj \<Rightarrow> wasmOperatorInstance \<Rightarrow> nat \<Rightarrow> panic + (32 word \<times> wasmOperatorInstance)" where
  "addHandle_loop ob i xctr =
     (if xctr > 2 ^ 32 then Inr (0, i)
      else (case handleMap i of
              None \<Rightarrow> Inl AssignmentToEntryInNilMap
            | Some m \<Rightarrow>
                (if m (handleCtr i) = None
                 then Inr (handleCtr i, i\<lparr>handleMap := Some (m(handleCtr i \<mapsto> ob))\<rparr>)
                 else addHandle_loop ob i (xctr + 1))))"
  by pat_completeness auto
termination
  by (relation "measure (\<lambda>(ob, i, xctr). 2 ^ 32 + 1 - xctr)") auto

declare addHandle_loop.simps [simp del]

definition addHandle :: "any \<Rightarrow> wasmOperatorInstance \<Rightarrow> panic + (32 word \<times> wasmOperatorInstance)" where
  "addHandle a i =
     (case a of
        None \<Rightarrow> Inr (0, i)
      | Some ob \<Rightarrow>
          (let i1 = i\<lparr>handleCtr := handleCtr i + 1\<rparr>;
               i2 = (if handleCtr i1 = 0 then i1\<lparr>handleCtr := handleCtr i1 + 1\<rparr> else i1)
           in addHandle_loop ob i2 0))"

definition getHandle :: "32 word \<Rightarrow> wasmOperatorInstance \<Rightarrow> any" where
  "getHandle handleID i = (case handleMap i of None \<Rightarrow> None | Some m \<Rightarrow> m handleID)"

definition delHandle :: "32 word \<Rightarrow> wasmOperatorInstance \<Rightarrow> wasmOperatorInstance" where
  "delHandle handleID i =
     (case handleMap i of
        None \<Rightarrow> i
      | Some m \<Rightarrow> i\<lparr>handleMap := Some (m(handleID := None))\<rparr>)"


text \<open>
  The instance after a reset of the handle table to \<open>nil\<close>, as the deferred function
  of \<open>Stop\<close> does it.
\<close>

definition cleanup :: "wasmOperatorInstance \<Rightarrow> wasmOperatorInstance" where
  "cleanup i = i\<lparr>handleMap := None\<rparr>"

text \<open>
  The instances that the operations of the source can produce: \<open>handleMap\<close> and
  \<open>handleCtr\<close> are written by \<open>InstantiateImageOperator\<close>, \<open>addHandle\<close>,
  \<open>delHandle\<close> and \<open>Stop\<close> only; logging and outgoing calls do not touch them.
\<close>

inductive reachable :: "wasmOperatorInstance \<Rightarrow> bool" where
  reachable_init: "reachable InstantiateImageOperator"
| reachable_add: "reachable i \<Longrightarrow> addHandle a i = Inr (h, i') \<Longrightarrow> reachable i'"
| reachable_del: "reachable i \<Longrightarrow> reachable (delHandle h i)"
| reachable_stop: "reachable i \<Longrightarrow> reachable (cleanup i)"
| reachable_frame: "reachable i \<Longrightarrow> reachable (i\<lparr>logs := l, calls := c\<rparr>)"

section \<open>The wasm operator instance: host functions\<close>

text \<open>
  What a host function sees of the world outside the instance at the time of the call.
  A Go string is a sequence of bytes, here a \<open>string\<close>. Errors of the callees are
  \<open>None\<close> where the callee returns an object, and \<open>Some\<close> of the message where it
  returns an error only. \<open>accRead\<close> gives the bits of a field as the accessor of the
  given kind returns them (for the float kinds: already converted to \<open>uint64\<close>), after
  the outgoing calls made so far.
\<close>

record env =
  memory :: string
  registerDataSource :: "string \<Rightarrow> nat option"
  getDataSources :: "string \<rightharpoonup> nat"
  dsGetField :: "nat \<Rightarrow> string \<Rightarrow> nat option"
  dsAddField :: "nat \<Rightarrow> string \<Rightarrow> nat option"
  dsNewData :: "nat \<Rightarrow> nat option"
  exportsDsCallback :: bool
  accString :: "nat \<Rightarrow> nat \<Rightarrow> string"
  accSize :: "nat \<Rightarrow> nat"
  accSet :: "nat \<Rightarrow> nat \<Rightarrow> string \<Rightarrow> string option"
  accRead :: "call list \<Rightarrow> nat \<Rightarrow> nat \<Rightarrow> nat \<Rightarrow> 64 word"
  guestMalloc :: "(nat \<Rightarrow> 64 word option) option"
  memoryWrite :: "32 word \<Rightarrow> string \<Rightarrow> bool"

text \<open>
  Modelled from the spec: \<open>stringFromStack\<close>, which is not among the sources. A string
  reference is a 64-bit value encoding \<open>(length << 32) | pointer\<close> into the guest's
  linear memory; the host reads \<open>length\<close> bytes at \<open>pointer\<close> and copies them. A
  reference that does not lie in the memory is an error.
\<close>

definition stringFromStack :: "string \<Rightarrow> 64 word \<Rightarrow> string option" where
  "stringFromStack mem val =
     (let offset = unat (take_bit 32 val); size = unat (drop_bit 32 val)
      in if offset + size \<le> length mem then Some (take size (drop offset mem)) else None)"

definition Warnf :: "string \<Rightarrow> wasmOperatorInstance \<Rightarrow> wasmOperatorInstance" where
  "Warnf msg i = i\<lparr>logs := logs i @ [(WarnLevel, msg)]\<rparr>"

definition Debugf :: "string \<Rightarrow> wasmOperatorInstance \<Rightarrow> wasmOperatorInstance" where
  "Debugf msg i = i\<lparr>logs := logs i @ [(DebugLevel, msg)]\<rparr>"

definition Info :: "string \<Rightarrow> wasmOperatorInstance \<Rightarrow> wasmOperatorInstance" where
  "Info msg i = i\<lparr>logs := logs i @ [(InfoLevel, msg)]\<rparr>"

definition outcall :: "call \<Rightarrow> wasmOperatorInstance \<Rightarrow> wasmOperatorInstance" where
  "outcall c i = i\<lparr>calls := calls i @ [c]\<rparr>"

text \<open>The type assertions \<open>x.(datasource.DataSource)\<close> and its like on a handle's object.\<close>

fun asDataSource :: "any \<Rightarrow> nat option" where
  "asDataSource (Some (DataSourceObj d)) = Some d"
| "asDataSource _ = None"

fun asFieldAccessor :: "any \<Rightarrow> nat option" where
  "asFieldAccessor (Some (FieldAccessorObj a)) = Some a"
| "asFieldAccessor _ = None"

fun asData :: "any \<Rightarrow> nat option" where
  "asData (Some (DataObj d)) = Some d"
| "asData _ = None"

text \<open>\<open>wapi.DecodeU32\<close> and \<open>wapi.EncodeU32\<close>.\<close>

definition DecodeU32 :: "64 word \<Rightarrow> 32 word" where
  "DecodeU32 v = ucast v"

definition EncodeU32 :: "32 word \<Rightarrow> 64 word" where
  "EncodeU32 v = ucast v"

type_synonym hostResult = "panic + (wasmOperatorInstance \<times> 64 word list)"

text \<open>Storing the handle of a new object as the result of a host function.\<close>

definition returnHandle :: "any \<Rightarrow> wasmOperatorInstance \<Rightarrow> 64 word list \<Rightarrow> hostResult" where
  "returnHandle a i stack =
     (case addHandle a i of
        Inl p \<Rightarrow> Inl p
      | Inr (h, i') \<Rightarrow> Inr (i', stack[0 := EncodeU32 h]))"

definition xlog :: "env \<Rightarrow> wasmOperatorInstance \<Rightarrow> 64 word list \<Rightarrow> hostResult" where
  "xlog e i stack =
     (case stringFromStack (memory e) (stack ! 0) of
        None \<Rightarrow> Inr (Warnf ''reading string from stack: %v'' i, stack)
      | Some buf \<Rightarrow> Inr (Info buf i, stack))"

definition newDataSource :: "env \<Rightarrow> wasmOperatorInstance \<Rightarrow> 64 word list \<Rightarrow> hostResult" where
  "newDataSource e i stack =
     (case stringFromStack (memory e) (stack ! 0) of
        None \<Rightarrow> Inr (Warnf ''reading string from stack: %v'' i, stack[0 := 0])
      | Some dsName \<Rightarrow>
          (let i1 = outcall (RegisterDataSource dsName) i
           in case registerDataSource e dsName of
                None \<Rightarrow> Inr (Warnf ''failed to register datasource: %v'' i1, stack[0 := 0])
              | Some ds \<Rightarrow> returnHandle (Some (DataSourceObj ds)) i1 stack))"

definition getDataSource :: "env \<Rightarrow> wasmOperatorInstance \<Rightarrow> 64 word list \<Rightarrow> hostResult" where
  "getDataSource e i stack =
     (case stringFromStack (memory e) (stack ! 0) of
        None \<Rightarrow> Inr (Warnf ''reading string from stack: %v'' i, stack[0 := 0])
      | Some dsName \<Rightarrow>
          (case getDataSources e dsName of
             None \<Rightarrow> Inr (Debugf ''datasource not found %q'' i, stack[0 := 0])
           | Some ds \<Rightarrow> returnHandle (Some (DataSourceObj ds)) i stack))"

definition dataSourceGetField :: "env \<Rightarrow> wasmOperatorInstance \<Rightarrow> 64 word list \<Rightarrow> hostResult" where
  "dataSourceGetField e i stack =
     (case asDataSource (getHandle (DecodeU32 (stack ! 0)) i) of
        None \<Rightarrow> Inr (Warnf ''datasource handle %d not found'' i, stack[0 := 0])
      | Some ds \<Rightarrow>
          (case stringFromStack (memory e) (stack ! 1) of
             None \<Rightarrow> Inr (Warnf ''reading string from stack: %v'' i, stack[0 := 0])
           | Some fieldName \<Rightarrow>
               returnHandle (map_option FieldAccessorObj (dsGetField e ds fieldName))
                 (outcall (DsGetField ds fieldName) i) stack))"

definition dataSourceAddField :: "env \<Rightarrow> wasmOperatorInstance \<Rightarrow> 64 word list \<Rightarrow> hostResult" where
  "dataSourceAddField e i stack =
     (case asDataSource (getHandle (DecodeU32 (stack ! 0)) i) of
        None \<Rightarrow> Inr (Warnf ''datasource handle %d not found'' i, stack[0 := 0])
      | Some ds \<Rightarrow>
          (case stringFromStack (memory e) (stack ! 1) of
             None \<Rightarrow> Inr (Warnf ''reading string from stack: %v'' i, stack[0 := 0])
           | Some fieldName \<Rightarrow>
               (let i1 = outcall (DsAddField ds fieldName) i
                in case dsAddField e ds fieldName of
                     None \<Rightarrow> Inr (Warnf ''adding field %q to datasource %q: %v'' i1, stack[0 := 0])
                   | Some acc \<Rightarrow> returnHandle (Some (FieldAccessorObj acc)) i1 stack)))"

text \<open>
  \<open>ds.Subscribe\<close> is an outgoing call that hands the closure over; the closure itself is
  \<open>dataSourceSubscribe_callback\<close> below.
\<close>

definition dataSourceSubscribe :: "env \<Rightarrow> wasmOperatorInstance \<Rightarrow> 64 word list \<Rightarrow> hostResult" where
  "dataSourceSubscribe e i stack =
     (case asDataSource (getHandle (DecodeU32 (stack ! 0)) i) of
        None \<Rightarrow> Inr (Warnf ''datasource handle %d not found'' i, stack[0 := 1])
      | Some ds \<Rightarrow>
          (let prio = sint (ucast (stack ! 1) :: 32 word); cbID = stack ! 2
           in if \<not> exportsDsCallback e
              then Inr (Warnf ''module doesn't export dsCallback'' i, stack[0 := 1])
              else Inr (outcall (DsSubscribe ds prio cbID) i, stack[0 := 0])))"

text \<open>
  The closure that \<open>dataSourceSubscribe\<close> registers. \<open>cb\<close> is the guest's exported
  \<open>dsCallback\<close>, called with the callback id and the two temporary handles; while it
  runs the guest may call host functions, so it returns a new instance with its error.
\<close>

definition dataSourceSubscribe_callback ::
  "(64 word \<Rightarrow> 64 word \<Rightarrow> 64 word \<Rightarrow> wasmOperatorInstance \<Rightarrow> wasmOperatorInstance \<times> string option) \<Rightarrow>
   64 word \<Rightarrow> any \<Rightarrow> any \<Rightarrow> wasmOperatorInstance \<Rightarrow> panic + (wasmOperatorInstance \<times> string option)" where
  "dataSourceSubscribe_callback cb cbID source data i =
     (case addHandle source i of
        Inl p \<Rightarrow> Inl p
      | Inr (tmpDS, i1) \<Rightarrow>
          (case addHandle data i1 of
             Inl p \<Rightarrow> Inl p
           | Inr (tmpData, i2) \<Rightarrow>
               (let (i3, err) = cb cbID (EncodeU32 tmpDS) (EncodeU32 tmpData) i2
                in Inr (delHandle tmpData (delHandle tmpDS i3), err))))"

definition dataSourceNewData :: "env \<Rightarrow> wasmOperatorInstance \<Rightarrow> 64 word list \<Rightarrow> hostResult" where
  "dataSourceNewData e i stack =
     (case asDataSource (getHandle (DecodeU32 (stack ! 0)) i) of
        None \<Rightarrow> Inr (Warnf ''datasource handle %d not found'' i, stack[0 := 0])
      | Some ds \<Rightarrow>
          returnHandle (map_option DataObj (dsNewData e ds)) (outcall (DsNewData ds) i) stack)"

definition dataSourceEmitAndRelease :: "env \<Rightarrow> wasmOperatorInstance \<Rightarrow> 64 word list \<Rightarrow> hostResult" where
  "dataSourceEmitAndRelease e i stack =
     (case asDataSource (getHandle (DecodeU32 (stack ! 0)) i) of
        None \<Rightarrow> Inr (Warnf ''datasource handle %d not found'' i, stack[0 := 1])
      | Some ds \<Rightarrow>
          (case asData (getHandle (DecodeU32 (stack ! 1)) i) of
             None \<Rightarrow> Inr (Warnf ''data handle %d not found'' i, stack[0 := 1])
           | Some data \<Rightarrow> Inr (outcall (DsEmitAndRelease ds data) i, stack[0 := 0])))"

definition dataSourceRelease :: "env \<Rightarrow> wasmOperatorInstance \<Rightarrow> 64 word list \<Rightarrow> hostResult" where
  "dataSourceRelease e i stack =
     (case asDataSource (getHandle (DecodeU32 (stack ! 0)) i) of
        None \<Rightarrow> Inr (Warnf ''datasource handle %d not found'' i, stack[0 := 1])
      | Some ds \<Rightarrow>
          (case asData (getHandle (DecodeU32 (stack ! 1)) i) of
             None \<Rightarrow> Inr (Warnf ''data handle %d not found'' i, stack[0 := 1])
           | Some data \<Rightarrow> Inr (outcall (DsRelease ds data) i, stack[0 := 0])))"

definition fieldAccessorGetString :: "env \<Rightarrow> wasmOperatorInstance \<Rightarrow> 64 word list \<Rightarrow> hostResult" where
  "fieldAccessorGetString e i stack =
     (case asFieldAccessor (getHandle (DecodeU32 (stack ! 0)) i) of
        None \<Rightarrow> Inr (Warnf ''field handle %d not found'' i, stack[0 := 0])
      | Some acc \<Rightarrow>
          (case asData (getHandle (DecodeU32 (stack ! 1)) i) of
             None \<Rightarrow> Inr (Warnf ''data handle %d not found'' i, stack[0 := 0])
           | Some data \<Rightarrow>
               (let str = accString e acc data;
                    i1 = outcall (AccString acc data) i
                in case guestMalloc e of
                     None \<Rightarrow> Inl NilPointerDereference
                   | Some malloc \<Rightarrow>
                       (let i2 = outcall (GuestMalloc (length str)) i1
                        in case malloc (length str) of
                             None \<Rightarrow> Inr (Warnf ''malloc failed: %v'' i2, stack[0 := 0])
                           | Some res \<Rightarrow>
                               (let i3 = outcall (MemoryWrite (ucast res) str) i2
                                in if \<not> memoryWrite e (ucast res) str
                                   then Inr (Warnf ''out of memory write'' i3, stack[0 := 0])
                                   else Inr (i3, stack[0 := push_bit 32 (of_nat (length str)) OR res]))))))"

text \<open>
  \<open>fieldAccessorSetString\<close>: for a field of static size \<open>s \<noteq> 0\<close> a longer string is
  refused and a shorter one is filled up with zero bytes. On success the stack is left as
  it is (the function is exported without results).
\<close>

definition fieldAccessorSetString :: "env \<Rightarrow> wasmOperatorInstance \<Rightarrow> 64 word list \<Rightarrow> hostResult" where
  "fieldAccessorSetString e i stack =
     (case asFieldAccessor (getHandle (DecodeU32 (stack ! 0)) i) of
        None \<Rightarrow> Inr (Warnf ''field handle %d not found'' i, stack[0 := 0])
      | Some acc \<Rightarrow>
          (case asData (getHandle (DecodeU32 (stack ! 1)) i) of
             None \<Rightarrow> Inr (Warnf ''data handle %d not found'' i, stack[0 := 0])
           | Some data \<Rightarrow>
               (case stringFromStack (memory e) (stack ! 2) of
                  None \<Rightarrow> Inr (Warnf ''reading string from stack: %v'' i, stack[0 := 0])
                | Some str \<Rightarrow>
                    (let s = accSize e acc
                     in if s \<noteq> 0 \<and> length str > s
                        then Inr (Warnf ''string too long: %d > %d'' i, stack[0 := 0])
                        else (let buf = (if s \<noteq> 0 then str @ replicate (s - length str) (CHR 0x00) else str);
                                  i1 = outcall (AccSet acc data buf) i
                              in case accSet e acc data buf of
                                   Some err \<Rightarrow> Inr (Warnf ''setting string failed: %v'' i1, stack[0 := 0])
                                 | None \<Rightarrow> Inr (i1, stack))))))"

text \<open>
  The field kinds, with the numbers of the guest's \<open>fieldKind\<close> constants
  (\<open>Kind_Int8 = 2\<close> up to \<open>Kind_Float64 = 11\<close>). \<open>getValue\<close> is the conversion
  \<open>uint64(acc.Int8(data))\<close> and its like of the bits that the accessor returns: the
  signed kinds are sign-extended, the unsigned ones zero-extended.
\<close>

definition Kind :: "64 word \<Rightarrow> nat" where
  "Kind v = unat (ucast v :: 32 word)"

definition getValue :: "nat \<Rightarrow> 64 word \<Rightarrow> 64 word" where
  "getValue k raw =
     (if k = 2 then scast (ucast raw :: 8 word)
      else if k = 3 then scast (ucast raw :: 16 word)
      else if k = 4 then scast (ucast raw :: 32 word)
      else if k = 5 then raw
      else if k = 6 then ucast (ucast raw :: 8 word)
      else if k = 7 then ucast (ucast raw :: 16 word)
      else if k = 8 then ucast (ucast raw :: 32 word)
      else raw)"

definition fieldAccessorGet :: "env \<Rightarrow> wasmOperatorInstance \<Rightarrow> 64 word list \<Rightarrow> hostResult" where
  "fieldAccessorGet e i stack =
     (case asFieldAccessor (getHandle (DecodeU32 (stack ! 0)) i) of
        None \<Rightarrow> Inr (Warnf ''field handle %d not found'' i, stack[0 := 0])
      | Some acc \<Rightarrow>
          (case asData (getHandle (DecodeU32 (stack ! 1)) i) of
             None \<Rightarrow> Inr (Warnf ''data handle %d not found'' i, stack[0 := 0])
           | Some data \<Rightarrow>
               (let k = Kind (stack ! 2)
                in if k = 2 \<or> k = 3 \<or> k = 4 \<or> k = 5 \<or> k = 6 \<or> k = 7 \<or> k = 8 \<or> k = 9
                      \<or> k = 10 \<or> k = 11
                   then Inr (outcall (AccGet acc data k) i,
                             stack[0 := getValue k (accRead e (calls i) acc data k)])
                   else Inr (Warnf ''unknown field kind: %d'' i, stack[0 := 0]))))"

text \<open>
  \<open>putValue\<close> is the conversion \<open>int8(stack[3])\<close> and its like: the value is cut to
  the width of the kind. Only the case \<open>Kind_Int8\<close> reads the field back into
  \<open>stack[0]\<close>; the float kinds are not handled.
\<close>

definition putValue :: "nat \<Rightarrow> 64 word \<Rightarrow> 64 word" where
  "putValue k v =
     (if k = 2 \<or> k = 6 then ucast (ucast v :: 8 word)
      else if k = 3 \<or> k = 7 then ucast (ucast v :: 16 word)
      else if k = 4 \<or> k = 8 then ucast (ucast v :: 32 word)
      else v)"

definition fieldAccessorSet :: "env \<Rightarrow> wasmOperatorInstance \<Rightarrow> 64 word list \<Rightarrow> hostResult" where
  "fieldAccessorSet e i stack =
     (case asFieldAccessor (getHandle (DecodeU32 (stack ! 0)) i) of
        None \<Rightarrow> Inr (Warnf ''field handle %d not found'' i, stack[0 := 0])
      | Some acc \<Rightarrow>
          (case asData (getHandle (DecodeU32 (stack ! 1)) i) of
             None \<Rightarrow> Inr (Warnf ''data handle %d not found'' i, stack[0 := 0])
           | Some data \<Rightarrow>
               (let k = Kind (stack ! 2);
                    i1 = outcall (AccPut acc data k (putValue k (stack ! 3))) i
                in if k = 2
                   then Inr (outcall (AccGet acc data k) i1,
                             stack[0 := getValue k (accRead e (calls i1) acc data k)])
                   else if k = 3 \<or> k = 4 \<or> k = 5 \<or> k = 6 \<or> k = 7 \<or> k = 8 \<or> k = 9
                   then Inr (i1, stack)
                   else Inr (Warnf ''unknown field kind: %d'' i, stack[0 := 0]))))"

text \<open>
  The functions that \<open>init\<close>, \<open>addDataSourceFuncs\<close> and \<open>addFieldFuncs\<close> export to
  the guest in module \<open>env\<close>, with the size of the stack that the runtime hands over (the
  larger of the numbers of parameters and of results). \<open>mfree\<close> takes neither a handle
  nor a string, and the body of \<open>freeHost\<close> is not among the sources. Indexing a shorter
  stack panics.
\<close>

datatype hostFunc =
    Export_xlog
  | Export_newDataSource
  | Export_getDataSource
  | Export_dataSourceSubscribe
  | Export_dataSourceGetField
  | Export_dataSourceAddField
  | Export_dataSourceNewData
  | Export_dataSourceEmitAndRelease
  | Export_dataSourceRelease
  | Export_fieldAccessorGetString
  | Export_fieldAccessorSetString
  | Export_fieldAccessorGet
  | Export_fieldAccessorSet

fun stackSize :: "hostFunc \<Rightarrow> nat" where
  "stackSize Export_xlog = 1"
| "stackSize Export_newDataSource = 1"
| "stackSize Export_getDataSource = 1"
| "stackSize Export_dataSourceSubscribe = 3"
| "stackSize Export_dataSourceGetField = 2"
| "stackSize Export_dataSourceAddField = 2"
| "stackSize Export_dataSourceNewData = 1"
| "stackSize Export_dataSourceEmitAndRelease = 2"
| "stackSize Export_dataSourceRelease = 2"
| "stackSize Export_fieldAccessorGetString = 2"
| "stackSize Export_fieldAccessorSetString = 3"
| "stackSize Export_fieldAccessorGet = 3"
| "stackSize Export_fieldAccessorSet = 4"

fun hostFunction :: "hostFunc \<Rightarrow> env \<Rightarrow> wasmOperatorInstance \<Rightarrow> 64 word list \<Rightarrow> hostResult" where
  "hostFunction Export_xlog = xlog"
| "hostFunction Export_newDataSource = newDataSource"
| "hostFunction Export_getDataSource = getDataSource"
| "hostFunction Export_dataSourceSubscribe = dataSourceSubscribe"
| "hostFunction Export_dataSourceGetField = dataSourceGetField"
| "hostFunction Export_dataSourceAddField = dataSourceAddField"
| "hostFunction Export_dataSourceNewData = dataSourceNewData"
| "hostFunction Export_dataSourceEmitAndRelease = dataSourceEmitAndRelease"
| "hostFunction Export_dataSourceRelease = dataSourceRelease"
| "hostFunction Export_fieldAccessorGetString = fieldAccessorGetString"
| "hostFunction Export_fieldAccessorSetString = fieldAccessorSetString"
| "hostFunction Export_fieldAccessorGet = fieldAccessorGet"
| "hostFunction Export_fieldAccessorSet = fieldAccessorSet"

definition hostCall :: "hostFunc \<Rightarrow> env \<Rightarrow> wasmOperatorInstance \<Rightarrow> 64 word list \<Rightarrow> hostResult" where
  "hostCall f e i stack =
     (if length stack < stackSize f then Inl IndexOutOfRange else hostFunction f e i stack)"

text \<open>
  \<open>Stop\<close>: \<open>guestStop\<close> is the guest's exported \<open>stop\<close>, if there is one; it may
  call host functions and returns the instance it leaves with its error. The deferred
  function resets the handle table on every path.
\<close>

definition Stop ::
  "(wasmOperatorInstance \<Rightarrow> wasmOperatorInstance \<times> string option) option \<Rightarrow>
   wasmOperatorInstance \<Rightarrow> wasmOperatorInstance \<times> string option" where
  "Stop guestStop i =
     (case guestStop of
        None \<Rightarrow> (cleanup i, None)
      | Some fn \<Rightarrow> (let (i', err) = fn i in (cleanup i', err)))"

text \<open>An environment for the examples: a guest memory of four bytes, every callee failing.\<close>

definition exampleEnv :: env where
  "exampleEnv =
     \<lparr>memory = ''abhi'', registerDataSource = (\<lambda>_. None), getDataSources = Map.empty,
      dsGetField = (\<lambda>_ _. None), dsAddField = (\<lambda>_ _. None), dsNewData = (\<lambda>_. None),
      exportsDsCallback = False, accString = (\<lambda>_ _. []), accSize = (\<lambda>_. 4),
      accSet = (\<lambda>_ _ _. None), accRead = (\<lambda>_ _ _ _. 0), guestMalloc = None,
      memoryWrite = (\<lambda>_ _. False)\<rparr>"

text \<open>
  The kinds of the arguments that the exported functions take, as the comments next to
  their registration name them: handles of data sources, field accessors and data, string
  references, and plain numbers.
\<close>

datatype param = DataSourceHandle | FieldAccessorHandle | DataHandle | StringRef | Plain

fun params :: "hostFunc \<Rightarrow> param list" where
  "params Export_xlog = [StringRef]"
| "params Export_newDataSource = [StringRef]"
| "params Export_getDataSource = [StringRef]"
| "params Export_dataSourceSubscribe = [DataSourceHandle, Plain, Plain]"
| "params Export_dataSourceGetField = [DataSourceHandle, StringRef]"
| "params Export_dataSourceAddField = [DataSourceHandle, StringRef]"
| "params Export_dataSourceNewData = [DataSourceHandle]"
| "params Export_dataSourceEmitAndRelease = [DataSourceHandle, DataHandle]"
| "params Export_dataSourceRelease = [DataSourceHandle, DataHandle]"
| "params Export_fieldAccessorGetString = [FieldAccessorHandle, DataHandle]"
| "params Export_fieldAccessorSetString = [FieldAccessorHandle, DataHandle, StringRef]"
| "params Export_fieldAccessorGet = [FieldAccessorHandle, DataHandle, Plain]"
| "params Export_fieldAccessorSet = [FieldAccessorHandle, DataHandle, Plain, Plain]"

text \<open>
  An argument is valid when, as a handle, it is a live entry of the handle table for an
  object of the expected interface, and, as a string reference, it lies in the guest's
  memory.
\<close>

fun validArg :: "env \<Rightarrow> wasmOperatorInstance \<Rightarrow> param \<Rightarrow> 64 word \<Rightarrow> bool" where
  "validArg e i DataSourceHandle v = (asDataSource (getHandle (DecodeU32 v) i) \<noteq> None)"
| "validArg e i FieldAccessorHandle v = (asFieldAccessor (getHandle (DecodeU32 v) i) \<noteq> None)"
| "validArg e i DataHandle v = (asData (getHandle (DecodeU32 v) i) \<noteq> None)"
| "validArg e i StringRef v = (stringFromStack (memory e) v \<noteq> None)"
| "validArg e i Plain v = True"

definition invalidArguments :: "hostFunc \<Rightarrow> env \<Rightarrow> wasmOperatorInstance \<Rightarrow> 64 word list \<Rightarrow> bool" where
  "invalidArguments f e i stack = list_ex (\<lambda>(p, v). \<not> validArg e i p v) (zip (params f) stack)"

text \<open>
  What a host function leaves on the stack for an invalid argument: 1 where the function
  documents 1 as its error code, nothing for \<open>xlog\<close>, and 0 elsewhere.
\<close>

fun errorResult :: "hostFunc \<Rightarrow> 64 word list \<Rightarrow> 64 word list" where
  "errorResult Export_xlog stack = stack"
| "errorResult Export_dataSourceSubscribe stack = stack[0 := 1]"
| "errorResult Export_dataSourceEmitAndRelease stack = stack[0 := 1]"
| "errorResult Export_dataSourceRelease stack = stack[0 := 1]"
| "errorResult f stack = stack[0 := 0]"

definition isHandle :: "param \<Rightarrow> bool" where
  "isHandle p = (p = DataSourceHandle \<or> p = FieldAccessorHandle \<or> p = DataHandle)"

section \<open>The OCI handler\<close>

text \<open>
  A layer of the manifest (\<open>ocispec.Descriptor\<close>), an image operator instance with the
  results of its lifecycle calls, and an image operator, whose \<open>InstantiateImageOperator\<close>
  returns an instance (or nil) together with an error (or nil).
\<close>

record Descriptor =
  MediaType :: string
  Digest :: string

record ImageOperatorInstance =
  instName :: string
  prepareErr :: "string option"
  startErr :: "string option"
  stopErr :: "string option"
  instExtraParams :: "string list"

record ImageOperator =
  opName :: string
  instantiate :: "Descriptor \<Rightarrow> ImageOperatorInstance option \<times> string option"

datatype lifecycleCall =
    InstantiateCall string Descriptor
  | PrepareCall ImageOperatorInstance
  | StartCall ImageOperatorInstance
  | StopCall ImageOperatorInstance

text \<open>
  \<open>OciHandlerInstance\<close>, with the log of the gadget context and the lifecycle calls made
  on image operators.
\<close>

record OciHandlerInstance =
  imageOperatorInstances :: "ImageOperatorInstance list"
  extraParams :: "string list"
  gadgetLog :: "(level \<times> string) list"
  lifecycle :: "lifecycleCall list"

definition InstantiateDataOperator :: OciHandlerInstance where
  "InstantiateDataOperator =
     \<lparr>imageOperatorInstances = [], extraParams = [], gadgetLog = [], lifecycle = []\<rparr>"

text \<open>
  What \<open>init\<close> gets from outside: the image name, the pull secret parameter and the
  result of fetching it, the results of ensuring the image, of getting the manifest (its
  layers), of reading and parsing the metadata, and the registry of image operators by
  media type.
\<close>

record ociEnv =
  imageName :: string
  pullSecretString :: string
  getPullSecretErr :: "string option"
  ensureImageErr :: "string option"
  manifestLayers :: "string + Descriptor list"
  getContentErr :: "string option"
  readAllErr :: "string option"
  readConfigErr :: "string option"
  GetImageOperatorForMediaType :: "string \<Rightarrow> ImageOperator option"

datatype ociError =
    ImageNameEmpty
  | GettingPullSecret string
  | EnsuringImage string
  | GettingManifest string
  | GettingMetadata string
  | ReadingMetadata string
  | UnmarshallingMetadata string
  | NoValidGadgetLayers

definition logOci :: "level \<Rightarrow> string \<Rightarrow> OciHandlerInstance \<Rightarrow> OciHandlerInstance" where
  "logOci l msg oci = oci\<lparr>gadgetLog := gadgetLog oci @ [(l, msg)]\<rparr>"

definition lifecycleDo :: "lifecycleCall \<Rightarrow> OciHandlerInstance \<Rightarrow> OciHandlerInstance" where
  "lifecycleDo c oci = oci\<lparr>lifecycle := lifecycle oci @ [c]\<rparr>"

text \<open>The loop of \<open>init\<close> over the layers of the manifest.\<close>

fun init_layers ::
  "(string \<Rightarrow> ImageOperator option) \<Rightarrow> Descriptor list \<Rightarrow> OciHandlerInstance \<Rightarrow> OciHandlerInstance" where
  "init_layers reg [] oci = oci"
| "init_layers reg (layer # layers) oci =
     (let o1 = logOci DebugLevel ''layer > %+v'' oci
      in case reg (MediaType layer) of
           None \<Rightarrow> init_layers reg layers o1
         | Some op \<Rightarrow>
             (let o2 = lifecycleDo (InstantiateCall (opName op) layer)
                         (logOci DebugLevel ''found image op %q'' o1);
                  o3 = (case snd (instantiate op layer) of
                          Some err \<Rightarrow> logOci ErrorLevel ''instantiating operator %q: %v'' o2
                        | None \<Rightarrow> o2)
              in case fst (instantiate op layer) of
                   None \<Rightarrow> init_layers reg layers (logOci DebugLevel ''> skipped %s'' o3)
                 | Some opInst \<Rightarrow>
                     init_layers reg layers
                       (o3\<lparr>imageOperatorInstances := imageOperatorInstances o3 @ [opInst]\<rparr>)))"

text \<open>
  Modelled from the spec: \<open>AddPrefix\<close>, which is not among the sources; the keys of the
  parameters are prefixed with the operator's name and a dot.
\<close>

definition AddPrefix :: "string \<Rightarrow> string list \<Rightarrow> string list" where
  "AddPrefix name ps = map (\<lambda>key. name @ ''.'' @ key) ps"

text \<open>
  The loop of \<open>init\<close> that prepares the instances and collects their extra parameters
  in the local \<open>extraParams\<close>; a failed \<open>Prepare\<close> is logged and the loop continues.
\<close>

fun init_prepare ::
  "ImageOperatorInstance list \<Rightarrow> string list \<Rightarrow> OciHandlerInstance \<Rightarrow> string list \<times> OciHandlerInstance" where
  "init_prepare [] extra oci = (extra, oci)"
| "init_prepare (opInst # rest) extra oci =
     (let o1 = lifecycleDo (PrepareCall opInst) oci
      in case prepareErr opInst of
           Some err \<Rightarrow> init_prepare rest extra (logOci ErrorLevel ''preparing operator %q: %v'' o1)
         | None \<Rightarrow> init_prepare rest (extra @ AddPrefix (instName opInst) (instExtraParams opInst)) o1)"

definition init :: "ociEnv \<Rightarrow> OciHandlerInstance \<Rightarrow> ociError + OciHandlerInstance" where
  "init e oci =
     (if length (imageName e) = 0 then Inl ImageNameEmpty
      else case (if pullSecretString e \<noteq> [] then getPullSecretErr e else None) of
        Some err \<Rightarrow> Inl (GettingPullSecret err)
      | None \<Rightarrow>
     (case ensureImageErr e of
        Some err \<Rightarrow> Inl (EnsuringImage err)
      | None \<Rightarrow>
     (case manifestLayers e of
        Inl err \<Rightarrow> Inl (GettingManifest err)
      | Inr layers \<Rightarrow>
     (case getContentErr e of
        Some err \<Rightarrow> Inl (GettingMetadata err)
      | None \<Rightarrow>
     (case readAllErr e of
        Some err \<Rightarrow> Inl (ReadingMetadata err)
      | None \<Rightarrow>
     (case readConfigErr e of
        Some err \<Rightarrow> Inl (UnmarshallingMetadata err)
      | None \<Rightarrow>
          (let o1 = init_layers (GetImageOperatorForMediaType e) layers oci
           in if length (imageOperatorInstances o1) = 0 then Inl NoValidGadgetLayers
              else (let (extra, o2) = init_prepare (imageOperatorInstances o1) [] o1
                    in Inr (o2\<lparr>extraParams := extra\<rparr>)))))))))"



fun stop_loop :: "ImageOperatorInstance list \<Rightarrow> OciHandlerInstance \<Rightarrow> OciHandlerInstance" where
  "stop_loop [] oci = oci"
| "stop_loop (opInst # rest) oci =
     (let o1 = lifecycleDo (StopCall opInst) oci
      in case stopErr opInst of
           Some err \<Rightarrow> stop_loop rest (logOci ErrorLevel ''starting operator %q: %v'' o1)
         | None \<Rightarrow> stop_loop rest o1)"

definition ociStop :: "OciHandlerInstance \<Rightarrow> OciHandlerInstance \<times> string option" where
  "ociStop oci = (stop_loop (imageOperatorInstances oci) oci, None)"

text \<open>
  Examples: an operator registered for the wasm media type whose instance fails in
  \<open>Prepare\<close>, and an image with one wasm layer and one layer of an unknown media type.
\<close>

definition failingInstance :: ImageOperatorInstance where
  "failingInstance =
     \<lparr>instName = ''wasm'', prepareErr = Some ''initializing wasm'', startErr = None,
      stopErr = None, instExtraParams = [''wasm-allow-host-fs'']\<rparr>"

definition exampleOciEnv :: ociEnv where
  "exampleOciEnv =
     \<lparr>imageName = ''gadget'', pullSecretString = [], getPullSecretErr = None,
      ensureImageErr = None,
      manifestLayers = Inr [\<lparr>MediaType = ''unknown'', Digest = ''a''\<rparr>,
                            \<lparr>MediaType = ''application/vnd.gadget.wasm.program.v1+binary'', Digest = ''b''\<rparr>],
      getContentErr = None, readAllErr = None, readConfigErr = None,
      GetImageOperatorForMediaType =
        (\<lambda>mt. if mt = ''application/vnd.gadget.wasm.program.v1+binary''
              then Some \<lparr>opName = ''wasm'', instantiate = (\<lambda>_. (Some failingInstance, None))\<rparr>
              else None)\<rparr>"

section \<open>Gadget metadata\<close>

text \<open>
  The four families of implementations of \<open>GadgetMetadata\<close>. A Go map is given by its
  entries; \<open>len\<close> is their number.
\<close>

record Tracer =
  tracerMapName :: string
  tracerStructName :: string

record Topper =
  topperMapName :: string
  topperStructName :: string

record Snapshotter =
  snapshotterStructName :: string

record Profiler =
  StructKeyName :: string
  StructValueName :: string
  profilerMapName :: string

record GadgetMetadata =
  Name :: string
  Tracers :: "(string \<times> Tracer) list"
  Toppers :: "(string \<times> Topper) list"
  Snapshotters :: "(string \<times> Snapshotter) list"
  Profilers :: "(string \<times> Profiler) list"

definition countDistImp :: "GadgetMetadata \<Rightarrow> nat" where
  "countDistImp m =
     (let count = 0;
          count = (if length (Tracers m) > 0 then count + 1 else count);
          count = (if length (Snapshotters m) > 0 then count + 1 else count);
          count = (if length (Toppers m) > 0 then count + 1 else count);
          count = (if length (Profilers m) > 0 then count + 1 else count)
      in count)"

text \<open>
  The errors that \<open>Validate\<close> collects. The other validators read the eBPF collection
  spec; their results (an error or nil) are given.
\<close>

datatype validationError =
    GadgetNameRequired
  | OnlyOneImplementation nat
  | ValidatorError string

record validators =
  validateEbpfParams :: "GadgetMetadata \<Rightarrow> string option"
  validateTracers :: "GadgetMetadata \<Rightarrow> string option"
  validateToppers :: "GadgetMetadata \<Rightarrow> string option"
  validateSnapshotters :: "GadgetMetadata \<Rightarrow> string option"
  validateProfilers :: "GadgetMetadata \<Rightarrow> string option"
  validateStructs :: "GadgetMetadata \<Rightarrow> string option"
  validateGadgetParams :: "GadgetMetadata \<Rightarrow> string option"

definition multierrorAppend :: "validationError list \<Rightarrow> string option \<Rightarrow> validationError list" where
  "multierrorAppend result err = (case err of None \<Rightarrow> result | Some msg \<Rightarrow> result @ [ValidatorError msg])"

definition Validate :: "validators \<Rightarrow> GadgetMetadata \<Rightarrow> validationError list" where
  "Validate v m =
     (let result = [];
          result = (if Name m = [] then result @ [GadgetNameRequired] else result);
          count = countDistImp m;
          result = (if count > 1 then result @ [OnlyOneImplementation count] else result);
          result = multierrorAppend result (validateEbpfParams v m);
          result = multierrorAppend result (validateTracers v m);
          result = multierrorAppend result (validateToppers v m);
          result = multierrorAppend result (validateSnapshotters v m);
          result = multierrorAppend result (validateProfilers v m);
          result = multierrorAppend result (validateStructs v m);
          result = multierrorAppend result (validateGadgetParams v m)
      in result)"

section \<open>Properties of the handle table\<close>

lemma addHandle_loop_live:
  "handleMap i = Some m \<Longrightarrow> m (handleCtr i) \<noteq> None \<Longrightarrow> addHandle_loop ob i xctr = Inr (0, i)"
proof (induction ob i xctr rule: addHandle_loop.induct)
  case (1 ob i xctr)
  show ?case
  proof (cases "xctr > 2 ^ 32")
    case True
    then show ?thesis by (subst addHandle_loop.simps) simp
  next
    case False
    with 1 show ?thesis by (subst addHandle_loop.simps) auto
  qed
qed

lemma addHandle_loop_free:
  "handleMap i = Some m \<Longrightarrow> m (handleCtr i) = None \<Longrightarrow>
   addHandle_loop ob i 0 = Inr (handleCtr i, i\<lparr>handleMap := Some (m(handleCtr i \<mapsto> ob))\<rparr>)"
  by (subst addHandle_loop.simps) simp

lemma addHandle_loop_result:
  assumes "addHandle_loop ob i xctr = Inr (h, i')"
  shows "(h = 0 \<and> i' = i) \<or>
     (h = handleCtr i \<and> (\<exists>m. handleMap i = Some m \<and> m h = None \<and> i' = i\<lparr>handleMap := Some (m(h \<mapsto> ob))\<rparr>))"
proof (cases "handleMap i")
  case None
  with assms show ?thesis
    by (subst (asm) addHandle_loop.simps) (simp split: if_splits)
next
  case (Some m)
  show ?thesis
  proof (cases "m (handleCtr i) = None")
    case True
    with Some assms show ?thesis
      by (subst (asm) addHandle_loop.simps) (auto split: if_splits)
  next
    case False
    with Some assms show ?thesis
      by (simp add: addHandle_loop_live)
  qed
qed

lemma addHandle_result:
  assumes "addHandle (Some ob) i = Inr (h, i')"
  shows "(h = 0 \<and> handleMap i' = handleMap i) \<or>
     (h \<noteq> 0 \<and> (\<exists>m. handleMap i = Some m \<and> m h = None \<and> handleMap i' = Some (m(h \<mapsto> ob))))"
  using assms
  by (auto simp: addHandle_def Let_def dest!: addHandle_loop_result split: if_splits)

text \<open>
  C1. The claim: every \<open>addHandle\<close> with a non-nil object returns a fresh non-zero id,
  skipping ids that are live, and returns 0 only when all slots are taken. The loop of the
  source counts \<open>xctr\<close> up but never advances \<open>handleCtr\<close>: with the counter at
  \<open>0xFFFFFFFF\<close> and id 1 live, the increment wraps to 0, skips it to 1, finds 1 live,
  and the call returns 0 although id 2 (and every other id but 1) is free.
\<close>

theorem addHandle_live_counter_returns_zero:
  "addHandle (Some (DataObj 0))
     \<lparr>handleMap = Some [1 \<mapsto> DataSourceObj 0], handleCtr = 0xFFFFFFFF, logs = [], calls = []\<rparr>
   = Inr (0, \<lparr>handleMap = Some [1 \<mapsto> DataSourceObj 0], handleCtr = 1, logs = [], calls = []\<rparr>)
   \<and> getHandle 2 \<lparr>handleMap = Some [1 \<mapsto> DataSourceObj 0], handleCtr = 1, logs = [], calls = []\<rparr> = None"
  by (simp add: addHandle_def getHandle_def addHandle_loop_live [where m = "[1 \<mapsto> DataSourceObj 0]"])

lemma reachable_zero_reserved: "reachable i \<Longrightarrow> getHandle 0 i = None"
proof (induction rule: reachable.induct)
  case reachable_init
  show ?case by (simp add: getHandle_def InstantiateImageOperator_def)
next
  case (reachable_add i a h i')
  show ?case
  proof (cases a)
    case None
    with reachable_add show ?thesis by (simp add: addHandle_def)
  next
    case (Some ob)
    with reachable_add addHandle_result [of ob i h i'] show ?thesis
      by (auto simp: getHandle_def)
  qed
next
  case (reachable_del i h)
  then show ?case by (auto simp: getHandle_def delHandle_def split: option.splits)
next
  case (reachable_stop i)
  show ?case by (simp add: getHandle_def cleanup_def)
next
  case (reachable_frame i l c)
  then show ?case by (simp add: getHandle_def)
qed



section \<open>Properties of the host functions\<close>


lemma stack1: "1 \<le> length stack \<Longrightarrow> \<exists>a r. stack = a # r"
  by (cases stack) auto
lemma stack2: "2 \<le> length stack \<Longrightarrow> \<exists>a b r. stack = a # b # r"
  by (cases stack; cases "tl stack") auto
lemma stack3: "3 \<le> length stack \<Longrightarrow> \<exists>a b c r. stack = a # b # c # r"
  by (cases stack; cases "tl stack"; cases "tl (tl stack)") auto
lemma stack4: "4 \<le> length stack \<Longrightarrow> \<exists>a b c d r. stack = a # b # c # d # r"
  by (cases stack; cases "tl stack"; cases "tl (tl stack)"; cases "tl (tl (tl stack))") auto

lemma invalid_xlog:
  assumes "stackSize Export_xlog \<le> length stack" "invalidArguments Export_xlog e i stack"
  shows "\<exists>msg. hostCall Export_xlog e i stack = Inr (Warnf msg i, errorResult Export_xlog stack)"
proof -
  from assms(1) obtain a r where "stack = a # r" using stack1 [of stack] by auto
  with assms(2) show ?thesis
    by (auto simp: hostCall_def invalidArguments_def xlog_def)
qed

lemma invalid_newDataSource:
  assumes "stackSize Export_newDataSource \<le> length stack" "invalidArguments Export_newDataSource e i stack"
  shows "\<exists>msg. hostCall Export_newDataSource e i stack = Inr (Warnf msg i, errorResult Export_newDataSource stack)"
proof -
  from assms(1) obtain a r where "stack = a # r" using stack1 [of stack] by auto
  with assms(2) show ?thesis
    by (auto simp: hostCall_def invalidArguments_def newDataSource_def)
qed

lemma invalid_getDataSource:
  assumes "stackSize Export_getDataSource \<le> length stack" "invalidArguments Export_getDataSource e i stack"
  shows "\<exists>msg. hostCall Export_getDataSource e i stack = Inr (Warnf msg i, errorResult Export_getDataSource stack)"
proof -
  from assms(1) obtain a r where "stack = a # r" using stack1 [of stack] by auto
  with assms(2) show ?thesis
    by (auto simp: hostCall_def invalidArguments_def getDataSource_def)
qed

lemma invalid_dataSourceSubscribe:
  assumes "stackSize Export_dataSourceSubscribe \<le> length stack" "invalidArguments Export_dataSourceSubscribe e i stack"
  shows "\<exists>msg. hostCall Export_dataSourceSubscribe e i stack = Inr (Warnf msg i, errorResult Export_dataSourceSubscribe stack)"
proof -
  from assms(1) obtain a b c r where "stack = a # b # c # r" using stack3 [of stack] by auto
  with assms(2) show ?thesis
    by (auto simp: hostCall_def invalidArguments_def dataSourceSubscribe_def)
qed

lemma invalid_dataSourceGetField:
  assumes "stackSize Export_dataSourceGetField \<le> length stack" "invalidArguments Export_dataSourceGetField e i stack"
  shows "\<exists>msg. hostCall Export_dataSourceGetField e i stack = Inr (Warnf msg i, errorResult Export_dataSourceGetField stack)"
proof -
  from assms(1) obtain a b r where "stack = a # b # r" using stack2 [of stack] by auto
  with assms(2) show ?thesis
    by (auto simp: hostCall_def invalidArguments_def dataSourceGetField_def split: option.splits)
qed

lemma invalid_dataSourceAddField:
  assumes "stackSize Export_dataSourceAddField \<le> length stack" "invalidArguments Export_dataSourceAddField e i stack"
  shows "\<exists>msg. hostCall Export_dataSourceAddField e i stack = Inr (Warnf msg i, errorResult Export_dataSourceAddField stack)"
proof -
  from assms(1) obtain a b r where "stack = a # b # r" using stack2 [of stack] by auto
  with assms(2) show ?thesis
    by (auto simp: hostCall_def invalidArguments_def dataSourceAddField_def split: option.splits)
qed

lemma invalid_dataSourceNewData:
  assumes "stackSize Export_dataSourceNewData \<le> length stack" "invalidArguments Export_dataSourceNewData e i stack"
  shows "\<exists>msg. hostCall Export_dataSourceNewData e i stack = Inr (Warnf msg i, errorResult Export_dataSourceNewData stack)"
proof -
  from assms(1) obtain a r where "stack = a # r" using stack1 [of stack] by auto
  with assms(2) show ?thesis
    by (auto simp: hostCall_def invalidArguments_def dataSourceNewData_def split: option.splits)
qed

lemma invalid_dataSourceEmitAndRelease:
  assumes "stackSize Export_dataSourceEmitAndRelease \<le> length stack" "invalidArguments Export_dataSourceEmitAndRelease e i stack"
  shows "\<exists>msg. hostCall Export_dataSourceEmitAndRelease e i stack = Inr (Warnf msg i, errorResult Export_dataSourceEmitAndRelease stack)"
proof -
  from assms(1) obtain a b r where "stack = a # b # r" using stack2 [of stack] by auto
  with assms(2) show ?thesis
    by (auto simp: hostCall_def invalidArguments_def dataSourceEmitAndRelease_def split: option.splits)
qed

lemma invalid_dataSourceRelease:
  assumes "stackSize Export_dataSourceRelease \<le> length stack" "invalidArguments Export_dataSourceRelease e i stack"
  shows "\<exists>msg. hostCall Export_dataSourceRelease e i stack = Inr (Warnf msg i, errorResult Export_dataSourceRelease stack)"
proof -
  from assms(1) obtain a b r where "stack = a # b # r" using stack2 [of stack] by auto
  with assms(2) show ?thesis
    by (auto simp: hostCall_def invalidArguments_def dataSourceRelease_def split: option.splits)
qed

lemma invalid_fieldAccessorGetString:
  assumes "stackSize Export_fieldAccessorGetString \<le> length stack" "invalidArguments Export_fieldAccessorGetString e i stack"
  shows "\<exists>msg. hostCall Export_fieldAccessorGetString e i stack = Inr (Warnf msg i, errorResult Export_fieldAccessorGetString stack)"
proof -
  from assms(1) obtain a b r where "stack = a # b # r" using stack2 [of stack] by auto
  with assms(2) show ?thesis
    by (auto simp: hostCall_def invalidArguments_def fieldAccessorGetString_def split: option.splits)
qed

lemma invalid_fieldAccessorSetString:
  assumes "stackSize Export_fieldAccessorSetString \<le> length stack" "invalidArguments Export_fieldAccessorSetString e i stack"
  shows "\<exists>msg. hostCall Export_fieldAccessorSetString e i stack = Inr (Warnf msg i, errorResult Export_fieldAccessorSetString stack)"
proof -
  from assms(1) obtain a b c r where "stack = a # b # c # r" using stack3 [of stack] by auto
  with assms(2) show ?thesis
    by (auto simp: hostCall_def invalidArguments_def fieldAccessorSetString_def split: option.splits)
qed

lemma invalid_fieldAccessorGet:
  assumes "stackSize Export_fieldAccessorGet \<le> length stack" "invalidArguments Export_fieldAccessorGet e i stack"
  shows "\<exists>msg. hostCall Export_fieldAccessorGet e i stack = Inr (Warnf msg i, errorResult Export_fieldAccessorGet stack)"
proof -
  from assms(1) obtain a b c r where "stack = a # b # c # r" using stack3 [of stack] by auto
  with assms(2) show ?thesis
    by (auto simp: hostCall_def invalidArguments_def fieldAccessorGet_def split: option.splits)
qed

lemma invalid_fieldAccessorSet:
  assumes "stackSize Export_fieldAccessorSet \<le> length stack" "invalidArguments Export_fieldAccessorSet e i stack"
  shows "\<exists>msg. hostCall Export_fieldAccessorSet e i stack = Inr (Warnf msg i, errorResult Export_fieldAccessorSet stack)"
proof -
  from assms(1) obtain a b c d r where "stack = a # b # c # d # r" using stack4 [of stack] by auto
  with assms(2) show ?thesis
    by (auto simp: hostCall_def invalidArguments_def fieldAccessorSet_def split: option.splits)
qed


lemma length_params: "length (params f) = stackSize f"
  by (cases f) simp_all

lemma zero_handle_invalid:
  assumes "getHandle 0 i = None" "isHandle p" "DecodeU32 v = 0"
  shows "\<not> validArg e i p v"
  using assms by (cases p) (simp_all add: isHandle_def)

lemma invalidArguments_index:
  assumes "stackSize f \<le> length stack" "k < stackSize f" "\<not> validArg e i (params f ! k) (stack ! k)"
  shows "invalidArguments f e i stack"
proof -
  from assms(1,2) have "k < length (zip (params f) stack)"
    by (simp add: length_params)
  then have "(params f ! k, stack ! k) \<in> set (zip (params f) stack)"
    by (metis nth_zip length_zip min_less_iff_conj nth_mem)
  with assms(3) show ?thesis
    by (auto simp: invalidArguments_def list_ex_iff)
qed

text \<open>
  C3. For every exported host function: when an argument that is a handle is not a live
  entry of the handle table for an object of the expected interface (handle 0 never is, in
  an instance that the operations can produce), or an argument that is a string reference
  does not lie in the guest's memory, the call returns without a panic, the instance is
  left as it was but for one more warning in the log (so no handle was added and no outgoing
  call was made), and the stack holds the error result of the function.
\<close>

theorem invalid_argument_warns:
  assumes "stackSize f \<le> length stack"
    and "invalidArguments f e i stack
         \<or> (reachable i \<and> (\<exists>k < stackSize f. isHandle (params f ! k) \<and> DecodeU32 (stack ! k) = 0))"
  shows "\<exists>msg. hostCall f e i stack = Inr (Warnf msg i, errorResult f stack)"
proof -
  from assms have inv: "invalidArguments f e i stack"
    using invalidArguments_index zero_handle_invalid reachable_zero_reserved by blast
  from assms(1) inv show ?thesis
    by (cases f)
      (simp_all only: invalid_xlog invalid_newDataSource invalid_getDataSource
        invalid_dataSourceSubscribe invalid_dataSourceGetField invalid_dataSourceAddField
        invalid_dataSourceNewData invalid_dataSourceEmitAndRelease invalid_dataSourceRelease
        invalid_fieldAccessorGetString invalid_fieldAccessorSetString invalid_fieldAccessorGet
        invalid_fieldAccessorSet)
qed


theorem invalid_argument_warns_witness:
  "stackSize Export_dataSourceGetField \<le> length [0, 0x200000002 :: 64 word]
   \<and> reachable InstantiateImageOperator
   \<and> isHandle (params Export_dataSourceGetField ! 0)
   \<and> (\<exists>msg. hostCall Export_dataSourceGetField exampleEnv InstantiateImageOperator [0, 0x200000002]
          = Inr (Warnf msg InstantiateImageOperator, [0, 0x200000002]))"
proof -
  have a: "stackSize Export_dataSourceGetField \<le> length [0, 0x200000002 :: 64 word]" by simp
  have b: "isHandle (params Export_dataSourceGetField ! 0)" by (simp add: isHandle_def)
  have c: "\<exists>k < stackSize Export_dataSourceGetField.
             isHandle (params Export_dataSourceGetField ! k) \<and> DecodeU32 ([0, 0x200000002] ! k) = 0"
    by (rule exI [of _ 0]) (simp add: isHandle_def DecodeU32_def)
  from invalid_argument_warns [of Export_dataSourceGetField "[0, 0x200000002]" exampleEnv InstantiateImageOperator]
    a b c reachable_init
  show ?thesis by simp
qed

lemma addHandle_any_result:
  assumes "addHandle a i = Inr (h, i')"
  shows "(h = 0 \<and> handleMap i' = handleMap i) \<or>
     (h \<noteq> 0 \<and> (\<exists>m ob. handleMap i = Some m \<and> m h = None \<and> handleMap i' = Some (m(h \<mapsto> ob))))"
proof (cases a)
  case None
  with assms show ?thesis by (simp add: addHandle_def)
next
  case (Some ob)
  with assms addHandle_result [of ob i h i'] show ?thesis by blast
qed

lemma addHandle_total:
  assumes "handleMap i = Some m"
  shows "\<exists>h i' m'. addHandle a i = Inr (h, i') \<and> handleMap i' = Some m'"
proof (cases a)
  case None
  with assms show ?thesis by (simp add: addHandle_def)
next
  case (Some ob)
  define i2 where "i2 = (if handleCtr i + 1 = 0 then i\<lparr>handleCtr := handleCtr i + 1 + 1\<rparr>
                         else i\<lparr>handleCtr := handleCtr i + 1\<rparr>)"
  have m2: "handleMap i2 = Some m" using assms by (simp add: i2_def)
  have eq: "addHandle a i = addHandle_loop ob i2 0"
    using Some by (simp add: addHandle_def i2_def Let_def)
  show ?thesis
  proof (cases "m (handleCtr i2) = None")
    case True
    from addHandle_loop_free [OF m2 True, of ob] eq show ?thesis by simp
  next
    case False
    from addHandle_loop_live [OF m2 False, of ob 0] eq m2 show ?thesis by simp
  qed
qed

lemma getHandle_delHandle: "getHandle h (delHandle h i) = None"
  by (simp add: getHandle_def delHandle_def split: option.splits)

lemma getHandle_delHandle_other: "getHandle h i = None \<Longrightarrow> getHandle h (delHandle k i) = None"
  by (simp add: getHandle_def delHandle_def split: option.splits)

lemma callback_unfold:
  assumes "addHandle source i = Inr (tmpDS, i1)" "addHandle data i1 = Inr (tmpData, i2)"
  shows "dataSourceSubscribe_callback cb cbID source data i
         = Inr (delHandle tmpData (delHandle tmpDS (fst (cb cbID (EncodeU32 tmpDS) (EncodeU32 tmpData) i2))),
                snd (cb cbID (EncodeU32 tmpDS) (EncodeU32 tmpData) i2))"
  using assms by (simp add: dataSourceSubscribe_callback_def split: prod.splits)

lemma callback_restores:
  assumes r: "getHandle 0 i = None"
    and a1: "addHandle source i = Inr (tmpDS, i1)" and a2: "addHandle data i1 = Inr (tmpData, i2)"
    and fr: "handleMap i3 = handleMap i2"
  shows "handleMap (delHandle tmpData (delHandle tmpDS i3)) = handleMap i"
proof (cases "handleMap i")
  case None
  with addHandle_any_result [OF a1] have "handleMap i1 = None" by auto
  with addHandle_any_result [OF a2] have "handleMap i2 = None" by auto
  with fr None show ?thesis by (simp add: delHandle_def)
next
  case (Some m)
  with r have m0: "m 0 = None" by (simp add: getHandle_def)
  from addHandle_any_result [OF a1] Some
  consider (z1) "tmpDS = 0" "handleMap i1 = Some m"
    | (n1) ob where "m tmpDS = None" "handleMap i1 = Some (m(tmpDS \<mapsto> ob))"
    by auto
  then show ?thesis
  proof cases
    case z1
    from addHandle_any_result [OF a2] z1
    consider (z2) "tmpData = 0" "handleMap i2 = Some m"
      | (n2) ob where "m tmpData = None" "handleMap i2 = Some (m(tmpData \<mapsto> ob))"
      by auto
    then show ?thesis
    proof cases
      case z2
      with z1 fr Some m0 show ?thesis by (auto simp: delHandle_def fun_eq_iff)
    next
      case n2
      with z1 fr Some m0 show ?thesis by (auto simp: delHandle_def fun_eq_iff)
    qed
  next
    case n1
    from addHandle_any_result [OF a2] n1
    consider (z2) "tmpData = 0" "handleMap i2 = Some (m(tmpDS \<mapsto> ob))"
      | (n2) ob' where "(m(tmpDS \<mapsto> ob)) tmpData = None" "handleMap i2 = Some (m(tmpDS \<mapsto> ob, tmpData \<mapsto> ob'))"
      by auto
    then show ?thesis
    proof cases
      case z2
      with n1 fr Some m0 show ?thesis by (auto simp: delHandle_def fun_eq_iff)
    next
      case n2
      with n1 fr Some m0 show ?thesis by (auto simp: delHandle_def fun_eq_iff split: if_splits)
    qed
  qed
qed

text \<open>
  C7. After \<open>Stop\<close> no handle is live, whether or not the guest exports \<open>stop\<close> and
  whatever its call returns. The closure registered by \<open>dataSourceSubscribe\<close> deletes
  the two temporary handles it has made before it returns: neither is live afterwards, and
  if the guest's callback left the handle table as it found it, the table is again what it
  was before the closure ran. The closure does return whenever the handle table is not
  \<open>nil\<close>.
\<close>

theorem stop_clears_handles_callback_frees_temporaries:
  "(\<forall>h. getHandle h (fst (Stop guestStop i)) = None)
   \<and> (\<forall>tmpDS i1 tmpData i2.
        addHandle source i = Inr (tmpDS, i1) \<and> addHandle data i1 = Inr (tmpData, i2) \<longrightarrow>
        (\<exists>i' err. dataSourceSubscribe_callback cb cbID source data i = Inr (i', err)
           \<and> getHandle tmpDS i' = None \<and> getHandle tmpData i' = None
           \<and> (reachable i \<and> handleMap (fst (cb cbID (EncodeU32 tmpDS) (EncodeU32 tmpData) i2)) = handleMap i2
                \<longrightarrow> handleMap i' = handleMap i)))
   \<and> (handleMap i \<noteq> None \<longrightarrow> (\<exists>i' err. dataSourceSubscribe_callback cb cbID source data i = Inr (i', err)))"
proof (intro conjI allI impI)
  fix h
  show "getHandle h (fst (Stop guestStop i)) = None"
    by (simp add: Stop_def cleanup_def getHandle_def split: option.splits prod.splits)
next
  fix tmpDS i1 tmpData i2
  assume a: "addHandle source i = Inr (tmpDS, i1) \<and> addHandle data i1 = Inr (tmpData, i2)"
  then have a1: "addHandle source i = Inr (tmpDS, i1)" and a2: "addHandle data i1 = Inr (tmpData, i2)"
    by simp_all
  let ?r = "cb cbID (EncodeU32 tmpDS) (EncodeU32 tmpData) i2"
  let ?i' = "delHandle tmpData (delHandle tmpDS (fst ?r))"
  have u: "dataSourceSubscribe_callback cb cbID source data i = Inr (?i', snd ?r)"
    by (rule callback_unfold [OF a1 a2])
  have g1: "getHandle tmpDS ?i' = None"
    by (rule getHandle_delHandle_other) (rule getHandle_delHandle)
  have g2: "getHandle tmpData ?i' = None"
    by (rule getHandle_delHandle)
  have g3: "reachable i \<and> handleMap (fst ?r) = handleMap i2 \<longrightarrow> handleMap ?i' = handleMap i"
    using callback_restores [OF reachable_zero_reserved a1 a2] by blast
  from u g1 g2 g3
  show "\<exists>i' err. dataSourceSubscribe_callback cb cbID source data i = Inr (i', err)
           \<and> getHandle tmpDS i' = None \<and> getHandle tmpData i' = None
           \<and> (reachable i \<and> handleMap (fst (cb cbID (EncodeU32 tmpDS) (EncodeU32 tmpData) i2)) = handleMap i2
                \<longrightarrow> handleMap i' = handleMap i)"
    by blast
next
  assume "handleMap i \<noteq> None"
  then obtain m where m: "handleMap i = Some m" by auto
  from addHandle_total [OF m, of source] obtain h1 i1 m1
    where a1: "addHandle source i = Inr (h1, i1)" and m1: "handleMap i1 = Some m1" by blast
  from addHandle_total [OF m1, of data] obtain h2 i2
    where a2: "addHandle data i1 = Inr (h2, i2)" by blast
  from callback_unfold [OF a1 a2]
  show "\<exists>i' err. dataSourceSubscribe_callback cb cbID source data i = Inr (i', err)" by blast
qed


theorem stop_clears_handles_callback_frees_temporaries_witness:
  "addHandle (Some (DataSourceObj 1)) InstantiateImageOperator
     = Inr (1, \<lparr>handleMap = Some [1 \<mapsto> DataSourceObj 1], handleCtr = 1, logs = [], calls = []\<rparr>)
   \<and> addHandle (Some (DataObj 2)) \<lparr>handleMap = Some [1 \<mapsto> DataSourceObj 1], handleCtr = 1, logs = [], calls = []\<rparr>
     = Inr (2, \<lparr>handleMap = Some [1 \<mapsto> DataSourceObj 1, 2 \<mapsto> DataObj 2], handleCtr = 2, logs = [], calls = []\<rparr>)
   \<and> reachable InstantiateImageOperator
   \<and> handleMap InstantiateImageOperator \<noteq> None
   \<and> (\<exists>i' err. dataSourceSubscribe_callback (\<lambda>_ _ _ s. (s, None)) 7
          (Some (DataSourceObj 1)) (Some (DataObj 2)) InstantiateImageOperator = Inr (i', err)
        \<and> getHandle 1 i' = None \<and> getHandle 2 i' = None
        \<and> handleMap i' = handleMap InstantiateImageOperator)"
proof -
  let ?i1 = "\<lparr>handleMap = Some [1 \<mapsto> DataSourceObj 1], handleCtr = 1, logs = [], calls = []\<rparr>"
  let ?i2 = "\<lparr>handleMap = Some [1 \<mapsto> DataSourceObj 1, 2 \<mapsto> DataObj 2], handleCtr = 2, logs = [], calls = []\<rparr>"
  have a1: "addHandle (Some (DataSourceObj 1)) InstantiateImageOperator = Inr (1, ?i1)"
    by (simp add: addHandle_def InstantiateImageOperator_def addHandle_loop.simps)
  have a2: "addHandle (Some (DataObj 2)) ?i1 = Inr (2, ?i2)"
    by (simp add: addHandle_def addHandle_loop.simps)
  have r: "reachable InstantiateImageOperator" by (rule reachable_init)
  have n: "handleMap InstantiateImageOperator \<noteq> None" by (simp add: InstantiateImageOperator_def)
  from stop_clears_handles_callback_frees_temporaries
    [of None InstantiateImageOperator "Some (DataSourceObj 1)" "Some (DataObj 2)" "\<lambda>_ _ _ s. (s, None)" 7]
  have "\<forall>tmpDS i1 tmpData i2.
        addHandle (Some (DataSourceObj 1)) InstantiateImageOperator = Inr (tmpDS, i1)
          \<and> addHandle (Some (DataObj 2)) i1 = Inr (tmpData, i2) \<longrightarrow>
        (\<exists>i' err. dataSourceSubscribe_callback (\<lambda>_ _ _ s. (s, None)) 7
             (Some (DataSourceObj 1)) (Some (DataObj 2)) InstantiateImageOperator = Inr (i', err)
           \<and> getHandle tmpDS i' = None \<and> getHandle tmpData i' = None
           \<and> (reachable InstantiateImageOperator \<and> handleMap (fst (i2, None :: string option)) = handleMap i2
                \<longrightarrow> handleMap i' = handleMap InstantiateImageOperator))"
    by blast
  with a1 a2 r have "\<exists>i' err. dataSourceSubscribe_callback (\<lambda>_ _ _ s. (s, None)) 7
          (Some (DataSourceObj 1)) (Some (DataObj 2)) InstantiateImageOperator = Inr (i', err)
        \<and> getHandle 1 i' = None \<and> getHandle 2 i' = None
        \<and> handleMap i' = handleMap InstantiateImageOperator"
    by (metis fst_conv)
  with a1 a2 r n show ?thesis by blast
qed

text \<open>
  C2, as claimed: \<open>dataSourceEmitAndRelease\<close> releases the record of the data handle
  on every path. With a data source handle that is not live (9) and a live data handle
  (5), the call returns 1 with a warning and makes no outgoing call: the record is neither
  emitted nor released, and its handle stays live.
\<close>

theorem emitAndRelease_unresolved_source_keeps_data:
  "getHandle 5 \<lparr>handleMap = Some [5 \<mapsto> DataObj 1], handleCtr = 5, logs = [], calls = []\<rparr> = Some (DataObj 1)
   \<and> hostCall Export_dataSourceEmitAndRelease exampleEnv
        \<lparr>handleMap = Some [5 \<mapsto> DataObj 1], handleCtr = 5, logs = [], calls = []\<rparr> [9, 5]
     = Inr (\<lparr>handleMap = Some [5 \<mapsto> DataObj 1], handleCtr = 5,
             logs = [(WarnLevel, ''datasource handle %d not found'')], calls = []\<rparr>, [1, 5])"
  by (simp add: hostCall_def dataSourceEmitAndRelease_def getHandle_def DecodeU32_def Warnf_def)

text \<open>
  C2, amended. When both handles resolve, \<open>dataSourceEmitAndRelease\<close> makes the one
  call \<open>ds.EmitAndRelease(data)\<close> and returns 0; when the data source handle or the
  data handle does not resolve, it returns 1 after one warning and nothing is emitted or
  released.
\<close>

theorem emitAndRelease_releases_iff_resolved:
  assumes "stackSize Export_dataSourceEmitAndRelease \<le> length stack"
  shows "(asDataSource (getHandle (DecodeU32 (stack ! 0)) i) = Some ds
            \<and> asData (getHandle (DecodeU32 (stack ! 1)) i) = Some data
          \<longrightarrow> hostCall Export_dataSourceEmitAndRelease e i stack
              = Inr (i\<lparr>calls := calls i @ [DsEmitAndRelease ds data]\<rparr>, stack[0 := 0]))
       \<and> (asDataSource (getHandle (DecodeU32 (stack ! 0)) i) = None
            \<or> asData (getHandle (DecodeU32 (stack ! 1)) i) = None
          \<longrightarrow> (\<exists>msg. hostCall Export_dataSourceEmitAndRelease e i stack
                = Inr (i\<lparr>logs := logs i @ [(WarnLevel, msg)]\<rparr>, stack[0 := 1])))"
  using assms
  by (auto simp: hostCall_def dataSourceEmitAndRelease_def outcall_def Warnf_def split: option.splits)

theorem emitAndRelease_releases_iff_resolved_witness:
  "stackSize Export_dataSourceEmitAndRelease \<le> length [1, 2 :: 64 word]
   \<and> hostCall Export_dataSourceEmitAndRelease exampleEnv
        \<lparr>handleMap = Some [1 \<mapsto> DataSourceObj 7, 2 \<mapsto> DataObj 8], handleCtr = 2, logs = [], calls = []\<rparr> [1, 2]
      = Inr (\<lparr>handleMap = Some [1 \<mapsto> DataSourceObj 7, 2 \<mapsto> DataObj 8], handleCtr = 2, logs = [],
              calls = [DsEmitAndRelease 7 8]\<rparr>, [0, 2])"
  using emitAndRelease_releases_iff_resolved
    [of "[1, 2]" "\<lparr>handleMap = Some [1 \<mapsto> DataSourceObj 7, 2 \<mapsto> DataObj 8], handleCtr = 2, logs = [], calls = []\<rparr>" 7 8 exampleEnv]
  by (simp add: getHandle_def DecodeU32_def)



section \<open>Properties of the metadata validator and the OCI handler\<close>

lemma multierrorAppend_only_one:
  "(OnlyOneImplementation n \<in> set (multierrorAppend result err)) = (OnlyOneImplementation n \<in> set result)"
  by (simp add: multierrorAppend_def split: option.splits)

text \<open>
  C9. \<open>Validate\<close> reports the error that a gadget can implement only one of tracer,
  snapshotter, topper and profiler exactly when more than one of the four families is
  non-empty; \<open>countDistImp\<close> is the number of non-empty families.
\<close>

theorem validate_only_one_implementation:
  "((\<exists>n. OnlyOneImplementation n \<in> set (Validate v m)) =
      (1 < length (filter (\<lambda>present. present)
             [Tracers m \<noteq> [], Snapshotters m \<noteq> [], Toppers m \<noteq> [], Profilers m \<noteq> []])))
   \<and> countDistImp m = length (filter (\<lambda>present. present)
             [Tracers m \<noteq> [], Snapshotters m \<noteq> [], Toppers m \<noteq> [], Profilers m \<noteq> []])"
proof -
  have c: "countDistImp m = length (filter (\<lambda>present. present)
             [Tracers m \<noteq> [], Snapshotters m \<noteq> [], Toppers m \<noteq> [], Profilers m \<noteq> []])"
    by (simp add: countDistImp_def Let_def)
  have "(\<exists>n. OnlyOneImplementation n \<in> set (Validate v m)) = (1 < countDistImp m)"
    by (auto simp: Validate_def Let_def multierrorAppend_only_one)
  with c show ?thesis by simp
qed

lemma init_layers_instances:
  "imageOperatorInstances (init_layers reg layers oci)
     = imageOperatorInstances oci
       @ concat (map (\<lambda>layer. case reg (MediaType layer) of
                        None \<Rightarrow> []
                      | Some op \<Rightarrow> (case fst (instantiate op layer) of None \<Rightarrow> [] | Some opInst \<Rightarrow> [opInst]))
                   layers)"
  by (induction layers arbitrary: oci)
     (auto simp: Let_def logOci_def lifecycleDo_def split: option.splits)

lemma init_after_preliminaries:
  assumes "imageName e \<noteq> []" "pullSecretString e = [] \<or> getPullSecretErr e = None"
    and "ensureImageErr e = None" "manifestLayers e = Inr layers" "getContentErr e = None"
    and "readAllErr e = None" "readConfigErr e = None"
  shows "init e oci =
     (let o1 = init_layers (GetImageOperatorForMediaType e) layers oci
      in if imageOperatorInstances o1 = [] then Inl NoValidGadgetLayers
         else Inr ((snd (init_prepare (imageOperatorInstances o1) [] o1))
                     \<lparr>extraParams := fst (init_prepare (imageOperatorInstances o1) [] o1)\<rparr>))"
  using assms
  by (auto simp: init_def Let_def split: prod.splits)

text \<open>
  C5. When the steps of \<open>init\<close> before the layers succeed: the instances that the loop
  over the layers adds are, in manifest order, those of the layers that have a registered
  operator whose instantiation returns an instance; a layer without a registered operator is
  passed over with the debug line of the loop only (no error, no call); and \<open>init\<close>
  fails with the error of no valid gadget layers exactly when no instance has been
  produced, and otherwise succeeds.
\<close>

theorem init_layers_dispatch:
  assumes "imageName e \<noteq> []" "pullSecretString e = [] \<or> getPullSecretErr e = None"
    and "ensureImageErr e = None" "manifestLayers e = Inr layers" "getContentErr e = None"
    and "readAllErr e = None" "readConfigErr e = None"
    and "reg = GetImageOperatorForMediaType e"
  shows "imageOperatorInstances (init_layers reg layers oci)
           = imageOperatorInstances oci
             @ concat (map (\<lambda>layer. case reg (MediaType layer) of
                              None \<Rightarrow> []
                            | Some op \<Rightarrow> (case fst (instantiate op layer) of None \<Rightarrow> [] | Some opInst \<Rightarrow> [opInst]))
                         layers)
       \<and> (\<forall>layer rest oci'. reg (MediaType layer) = None \<longrightarrow>
             init_layers reg (layer # rest) oci' = init_layers reg rest (logOci DebugLevel ''layer > %+v'' oci'))
       \<and> (init e oci = Inl NoValidGadgetLayers) = (imageOperatorInstances (init_layers reg layers oci) = [])
       \<and> (\<exists>oci'. init e oci = Inr oci') = (imageOperatorInstances (init_layers reg layers oci) \<noteq> [])"
proof (intro conjI allI impI)
  show "imageOperatorInstances (init_layers reg layers oci)
           = imageOperatorInstances oci
             @ concat (map (\<lambda>layer. case reg (MediaType layer) of
                              None \<Rightarrow> []
                            | Some op \<Rightarrow> (case fst (instantiate op layer) of None \<Rightarrow> [] | Some opInst \<Rightarrow> [opInst]))
                         layers)"
    by (rule init_layers_instances)
next
  fix layer :: Descriptor and rest oci'
  assume "reg (MediaType layer) = None"
  then show "init_layers reg (layer # rest) oci' = init_layers reg rest (logOci DebugLevel ''layer > %+v'' oci')"
    by simp
next
  show "(init e oci = Inl NoValidGadgetLayers) = (imageOperatorInstances (init_layers reg layers oci) = [])"
    using init_after_preliminaries [OF assms(1-7), of oci] assms(8) by (simp add: Let_def)
  show "(\<exists>oci'. init e oci = Inr oci') = (imageOperatorInstances (init_layers reg layers oci) \<noteq> [])"
    using init_after_preliminaries [OF assms(1-7), of oci] assms(8) by (simp add: Let_def)
qed

theorem init_layers_dispatch_witness:
  "imageName exampleOciEnv \<noteq> []
   \<and> manifestLayers exampleOciEnv
       = Inr [\<lparr>MediaType = ''unknown'', Digest = ''a''\<rparr>,
              \<lparr>MediaType = ''application/vnd.gadget.wasm.program.v1+binary'', Digest = ''b''\<rparr>]
   \<and> GetImageOperatorForMediaType exampleOciEnv ''unknown'' = None
   \<and> imageOperatorInstances (init_layers (GetImageOperatorForMediaType exampleOciEnv)
         [\<lparr>MediaType = ''unknown'', Digest = ''a''\<rparr>,
          \<lparr>MediaType = ''application/vnd.gadget.wasm.program.v1+binary'', Digest = ''b''\<rparr>]
         InstantiateDataOperator) = [failingInstance]
   \<and> (\<exists>oci'. init exampleOciEnv InstantiateDataOperator = Inr oci')"
proof -
  let ?ls = "[\<lparr>MediaType = ''unknown'', Digest = ''a''\<rparr>,
              \<lparr>MediaType = ''application/vnd.gadget.wasm.program.v1+binary'', Digest = ''b''\<rparr>]"
  have a: "imageName exampleOciEnv \<noteq> []"
    "pullSecretString exampleOciEnv = [] \<or> getPullSecretErr exampleOciEnv = None"
    "ensureImageErr exampleOciEnv = None" "manifestLayers exampleOciEnv = Inr ?ls"
    "getContentErr exampleOciEnv = None" "readAllErr exampleOciEnv = None"
    "readConfigErr exampleOciEnv = None"
    by (simp_all add: exampleOciEnv_def)
  have u: "GetImageOperatorForMediaType exampleOciEnv ''unknown'' = None"
    by (simp add: exampleOciEnv_def)
  have l: "imageOperatorInstances (init_layers (GetImageOperatorForMediaType exampleOciEnv) ?ls InstantiateDataOperator)
             = [failingInstance]"
    by (simp add: exampleOciEnv_def Let_def logOci_def lifecycleDo_def InstantiateDataOperator_def)
  from init_layers_dispatch [OF a refl, of InstantiateDataOperator] l
  have "\<exists>oci'. init exampleOciEnv InstantiateDataOperator = Inr oci'" by simp
  with a u l show ?thesis by blast
qed






end
